theory Spec2Isabelle
  imports Main "HOL-Library.Word"
begin

section \<open>Data model of \<^verbatim>\<open>main.go\<close>\<close>

text \<open>
  Go's \<^verbatim>\<open>int\<close> is 64 bits wide on the platform the Dockerfile builds for; its addition
  wraps around, so the counters of a device record are 64-bit words read as signed numbers
  (\<open>sint\<close>). A \<^verbatim>\<open>time.Time\<close> is a point on the clock, in nanoseconds since the Unix epoch.
  Byte slices and strings are \<open>string\<close>. The fields \<^verbatim>\<open>App\<close> and \<^verbatim>\<open>Environment\<close> of
  \<^verbatim>\<open>Device\<close> are \<open>DeviceApp\<close> and \<open>DeviceEnvironment\<close> here, since \<^verbatim>\<open>Payload\<close> has
  fields of the same names.
\<close>

type_synonym go_int = "64 word"
type_synonym time = int

record PushError =
  Body :: string
  StatusCode :: int

record Payload =
  AccountID :: "64 word"
  App :: string
  Data :: string
  DeviceToken :: string
  Environment :: string

record Device =
  ApiVersion :: go_int
  DeviceApp :: string
  Created :: time
  DeviceId :: string
  DeviceInfo :: string
  DeviceEnvironment :: string
  Failures :: go_int
  LastSuccess :: time
  Platform :: string
  Token :: string
  TotalFailures :: go_int
  TotalSuccesses :: go_int
  Updated :: time

text \<open>
  The values of Go's \<^verbatim>\<open>error\<close> interface that the program produces. \<open>None\<close> of
  \<open>error option\<close> is \<^verbatim>\<open>nil\<close>.
\<close>

datatype error =
    InvalidApp string  \<comment> \<open>\<^verbatim>\<open>fmt.Errorf("invalid app \"%s\"", app)\<close>\<close>
  | RequestError       \<comment> \<open>the error of \<^verbatim>\<open>http.NewRequest\<close>\<close>
  | TransportError     \<comment> \<open>the error of \<^verbatim>\<open>client.Do\<close>: connection, timeout, DNS\<close>
  | ReadError          \<comment> \<open>the error of \<^verbatim>\<open>ioutil.ReadAll\<close>\<close>
  | PushErr PushError  \<comment> \<open>a \<^verbatim>\<open>PushError\<close> value\<close>
  | NoSuchEntity       \<comment> \<open>\<^verbatim>\<open>datastore.ErrNoSuchEntity\<close>\<close>
  | DatastoreError     \<comment> \<open>any other error of the datastore client\<close>

text \<open>The two ways the process stops: \<^verbatim>\<open>panic\<close> and \<^verbatim>\<open>log.Fatalf\<close>.\<close>

datatype abort = Panic string | Fatal string

subsection \<open>The error classifier\<close>

definition Permanent :: "PushError \<Rightarrow> bool" where
  "Permanent pe = (StatusCode pe = 400 \<or> StatusCode pe = 410)"

definition Retryable :: "PushError \<Rightarrow> bool" where
  "Retryable pe = (StatusCode pe = 429 \<or> StatusCode pe = 500 \<or> StatusCode pe = 503)"

subsection \<open>The transport registry\<close>

text \<open>
  An \<^verbatim>\<open>*http.Client\<close> as \<^verbatim>\<open>NewClient\<close> builds it: the certificate loaded for the
  application and the request timeout in seconds. Loading the key pair is the file system's
  answer, a parameter here: \<open>load pem key\<close> is \<open>None\<close> when
  \<^verbatim>\<open>tls.LoadX509KeyPair\<close> fails. (\<^verbatim>\<open>http2.ConfigureTransport\<close> on a fresh transport
  does not fail.)
\<close>

record client =
  Certificate :: string
  Timeout :: int

type_synonym ClientMap = "string \<rightharpoonup> client"

definition NewClient :: "(string \<Rightarrow> string \<Rightarrow> string option) \<Rightarrow> string \<Rightarrow> abort + client" where
  "NewClient load app =
     (case load (''secrets/'' @ app @ ''.pem'') (''secrets/'' @ app @ ''.key'') of
        None \<Rightarrow> Inl (Fatal (''Failed to create client for '' @ app))
      | Some cert \<Rightarrow> Inr \<lparr>Certificate = cert, Timeout = 3\<rparr>)"

text \<open>
  \<^verbatim>\<open>ClientMap.Create\<close>: the result, and the map as the call leaves it.
\<close>

definition Create ::
  "(string \<Rightarrow> string \<Rightarrow> string option) \<Rightarrow> ClientMap \<Rightarrow> string \<Rightarrow> (abort + client) \<times> ClientMap" where
  "Create load m app =
     (case m app of
        Some old \<Rightarrow> (Inl (Panic ''tried to overwrite existing client''), m)
      | None \<Rightarrow>
          (case NewClient load app of
             Inl stop \<Rightarrow> (Inl stop, m)
           | Inr client \<Rightarrow> (Inr client, m(app \<mapsto> client))))"

section \<open>The state of the process and what it does to the outside world\<close>

type_synonym key = "64 word \<times> string"
  \<comment> \<open>\<^verbatim>\<open>NameKey("Device", token, IDKey("Account", id, nil))\<close>\<close>

record request =
  url :: string
  apns_expiration :: int
  apns_topic :: string
  content_type :: string
  body :: string

text \<open>
  The calls the program makes, in the order it makes them. \<open>Lookup\<close> is the read of
  \<^verbatim>\<open>clients[app]\<close> that opens every call of \<^verbatim>\<open>Push\<close>; the \<open>Log\<close> events are the
  \<^verbatim>\<open>log.Printf\<close> calls, by their message.
\<close>

datatype event =
    Lookup string
  | Send client request       \<comment> \<open>\<^verbatim>\<open>client.Do(req)\<close>\<close>
  | ReadBody                  \<comment> \<open>\<^verbatim>\<open>ioutil.ReadAll(resp.Body)\<close>\<close>
  | CloseBody                 \<comment> \<open>the deferred \<^verbatim>\<open>resp.Body.Close()\<close>\<close>
  | UpdateStats key bool      \<comment> \<open>\<^verbatim>\<open>updateDeviceStats(ctx, deviceKey, success)\<close>\<close>
  | DeleteKey key             \<comment> \<open>\<^verbatim>\<open>store.Delete(ctx, deviceKey)\<close>\<close>
  | Sleep int                 \<comment> \<open>\<^verbatim>\<open>time.Sleep\<close>, in seconds\<close>
  | LogUnrecognizedApp string
  | LogPermanentFailure "64 word" PushError
  | LogFailedToDelete "64 word" error
  | LogDropping "64 word" PushError
  | LogPayload "64 word" string
  | LogFailedToUpdate "64 word" error
  | LogFailedPush "64 word" int error
  | LogExceededRetries "64 word"

record state =
  clients :: ClientMap
  timestamp :: time
  store :: "key \<rightharpoonup> Device"
  trace :: "event list"

definition emit :: "event \<Rightarrow> state \<Rightarrow> state" where
  "emit e s = s\<lparr>trace := trace s @ [e]\<rparr>"

text \<open>
  What the outside world answers during one turn of the dispatcher's loop: the clock read
  when the request is built, whether \<^verbatim>\<open>http.NewRequest\<close> accepts the URL, the gateway's
  reply to \<^verbatim>\<open>client.Do\<close>, the clock read when the reply is in, and for the datastore the
  first step of the transaction that fails (if any), the clock read inside the transaction
  and whether \<^verbatim>\<open>store.Delete\<close> fails.
\<close>

datatype reply =
    NoResponse                   \<comment> \<open>\<^verbatim>\<open>client.Do\<close> returns an error\<close>
  | Response int "string option" \<comment> \<open>the status, and the body if \<^verbatim>\<open>ioutil.ReadAll\<close> can read it\<close>

datatype tx_fault = NoFault | GetFails | PutFails | CommitFails

record turn =
  t_request :: time
  request_ok :: bool
  gateway :: reply
  t_response :: time
  fault :: tx_fault
  t_update :: time
  delete_fails :: bool

section \<open>One delivery attempt: \<^verbatim>\<open>Push\<close>\<close>

definition AppleHost :: string where
  "AppleHost = ''https://api.push.apple.com''"

definition AppleHostDev :: string where
  "AppleHostDev = ''https://api.development.push.apple.com''"

definition MaxRetries :: int where
  "MaxRetries = 3"

definition Unix :: "time \<Rightarrow> int" where
  "Unix t = t div 1000000000"

definition Hour :: int where
  "Hour = 3600 * 1000000000"

definition Push :: "string \<Rightarrow> string \<Rightarrow> string \<Rightarrow> string \<Rightarrow> turn \<Rightarrow> state \<Rightarrow> error option \<times> state" where
  "Push app deviceToken env data r s =
     (let s0 = emit (Lookup app) s in
      case clients s app of
        None \<Rightarrow> (Some (InvalidApp app), s0)
      | Some client \<Rightarrow>
          (let url = (if env = ''development''
                      then AppleHostDev @ ''/3/device/'' @ deviceToken
                      else AppleHost @ ''/3/device/'' @ deviceToken)
           in if \<not> request_ok r then (Some RequestError, s0)
              else
                (let expiration = Unix (t_request r + 168 * Hour);
                     req = \<lparr>url = url, apns_expiration = expiration, apns_topic = app,
                            content_type = ''application/json'', body = data\<rparr>;
                     s1 = emit (Send client req) s0
                 in case gateway r of
                      NoResponse \<Rightarrow> (Some TransportError, s1)
                    | Response status content \<Rightarrow>
                        (let s2 = s1\<lparr>timestamp := t_response r\<rparr>
                         in if status = 200 then (None, emit CloseBody s2)
                            else
                              (case content of
                                 None \<Rightarrow> (Some ReadError, emit CloseBody (emit ReadBody s2))
                               | Some b \<Rightarrow>
                                   (Some (PushErr \<lparr>Body = b, StatusCode = status\<rparr>),
                                    emit CloseBody (emit ReadBody s2)))))))"

section \<open>Device bookkeeping: \<^verbatim>\<open>updateDeviceStats\<close>\<close>

text \<open>The body of the transaction, between \<^verbatim>\<open>tx.Get\<close> and \<^verbatim>\<open>tx.Put\<close>.\<close>

definition updateDevice :: "bool \<Rightarrow> time \<Rightarrow> Device \<Rightarrow> Device" where
  "updateDevice success now device =
     (let device = device\<lparr>Updated := now\<rparr>
      in if success
         then device\<lparr>LastSuccess := now,
                     TotalSuccesses := TotalSuccesses device + 1,
                     Failures := 0\<rparr>
         else device\<lparr>Failures := Failures device + 1,
                     TotalFailures := TotalFailures device + 1\<rparr>)"

text \<open>
  \<^verbatim>\<open>store.RunInTransaction\<close> commits what the function put, or returns an error and
  leaves the store as it was. \<^verbatim>\<open>tx.Get\<close> of a missing key is
  \<^verbatim>\<open>ErrNoSuchEntity\<close>.
\<close>

definition updateDeviceStats :: "key \<Rightarrow> bool \<Rightarrow> turn \<Rightarrow> state \<Rightarrow> error option \<times> state" where
  "updateDeviceStats k success r s =
     (let s0 = emit (UpdateStats k success) s in
      if fault r = GetFails then (Some DatastoreError, s0)
      else
        (case store s k of
           None \<Rightarrow> (Some NoSuchEntity, s0)
         | Some device \<Rightarrow>
             if fault r = PutFails \<or> fault r = CommitFails then (Some DatastoreError, s0)
             else (None, s0\<lparr>store := (store s)(k \<mapsto> updateDevice success (t_update r) device)\<rparr>)))"

text \<open>\<^verbatim>\<open>store.Delete\<close>: deleting a key that is not there is no error.\<close>

definition Delete :: "key \<Rightarrow> turn \<Rightarrow> state \<Rightarrow> error option \<times> state" where
  "Delete k r s =
     (let s0 = emit (DeleteKey k) s in
      if delete_fails r then (Some DatastoreError, s0)
      else (None, s0\<lparr>store := (store s)(k := None)\<rparr>))"

section \<open>The dispatcher: \<^verbatim>\<open>push\<close>\<close>

text \<open>
  The guard \<^verbatim>\<open>err, ok := err.(PushError); ok && err.Permanent()\<close>: the error as a
  \<^verbatim>\<open>PushError\<close> when the guard holds.
\<close>

definition permanent_error :: "error option \<Rightarrow> PushError option" where
  "permanent_error err =
     (case err of
        Some (PushErr pe) \<Rightarrow> if Permanent pe then Some pe else None
      | _ \<Rightarrow> None)"

text \<open>
  The seconds of \<^verbatim>\<open>time.Duration(math.Exp2(float64(attempt-1))) * time.Second\<close>. The
  loop sleeps only while \<^verbatim>\<open>attempt < MaxRetries\<close>, so the exponent is 0 or 1 there and the
  floating-point power of two and its conversion are exact; a negative exponent gives a
  fraction that the conversion truncates to 0.
\<close>

definition backoff :: "int \<Rightarrow> int" where
  "backoff attempt = (if attempt < 1 then 0 else 2 ^ nat (attempt - 1))"

text \<open>
  The \<^verbatim>\<open>for\<close> loop of \<^verbatim>\<open>push\<close>, from the state at the head of the loop; \<open>w attempt\<close>
  is what the outside world answers during that turn.
\<close>

function push_loop :: "Payload \<Rightarrow> key \<Rightarrow> (int \<Rightarrow> turn) \<Rightarrow> int \<Rightarrow> state \<Rightarrow> state" where
  "push_loop payload deviceKey w attempt s =
     (let (err, s1) = Push (App payload) (DeviceToken payload) (Environment payload)
                        (Data payload) (w attempt) s
      in case permanent_error err of
           Some pe \<Rightarrow>
             (let s2 =
                (if Permanent pe then
                   (let (delErr, s') =
                          Delete deviceKey (w attempt)
                            (emit (LogPermanentFailure (AccountID payload) pe) s1)
                    in case delErr of
                         Some e \<Rightarrow> emit (LogFailedToDelete (AccountID payload) e) s'
                       | None \<Rightarrow> s')
                 else if \<not> Retryable pe then emit (LogDropping (AccountID payload) pe) s1
                 else s1)
              in emit (LogPayload (AccountID payload) (Data payload)) s2)
         | None \<Rightarrow>
             (let (updateErr, s2) = updateDeviceStats deviceKey (err = None) (w attempt) s1;
                  s3 = (case updateErr of
                          Some e \<Rightarrow> emit (LogFailedToUpdate (AccountID payload) e) s2
                        | None \<Rightarrow> s2)
              in case err of
                   None \<Rightarrow> s3
                 | Some e \<Rightarrow>
                     (let s4 = emit (LogFailedPush (AccountID payload) attempt e) s3
                      in if attempt \<ge> MaxRetries
                         then emit (LogPayload (AccountID payload) (Data payload))
                                (emit (LogExceededRetries (AccountID payload)) s4)
                         else push_loop payload deviceKey w (attempt + 1)
                                (emit (Sleep (backoff attempt)) s4))))"
  by pat_completeness auto
termination
  by (relation "measure (\<lambda>(payload, deviceKey, w, attempt, s). nat (MaxRetries - attempt))") auto

declare push_loop.simps [simp del]

definition push :: "Payload \<Rightarrow> (int \<Rightarrow> turn) \<Rightarrow> state \<Rightarrow> state" where
  "push payload w s =
     (let app = App payload
      in if app = [] then emit (LogUnrecognizedApp app) s
         else push_loop payload (AccountID payload, DeviceToken payload) w 1 s)"

section \<open>Reading a trace\<close>

text \<open>
  The steps of a trace are the calls the claims count, in their order: the lookups (one
  opens every call of \<^verbatim>\<open>Push\<close>, so they number the delivery attempts), the bookkeeping
  updates, the deletes and the sleeps. Beside them: the requests sent to the gateway, the
  number of body reads, and the keys deleted.
\<close>

fun is_step :: "event \<Rightarrow> bool" where
  "is_step (Lookup app) = True"
| "is_step (UpdateStats k success) = True"
| "is_step (DeleteKey k) = True"
| "is_step (Sleep d) = True"
| "is_step e = False"

definition steps :: "event list \<Rightarrow> event list" where
  "steps es = filter is_step es"

fun sends :: "event list \<Rightarrow> request list" where
  "sends [] = []"
| "sends (Send c req # es) = req # sends es"
| "sends (e # es) = sends es"

fun reads :: "event list \<Rightarrow> nat" where
  "reads [] = 0"
| "reads (ReadBody # es) = Suc (reads es)"
| "reads (e # es) = reads es"

fun deletes :: "event list \<Rightarrow> key list" where
  "deletes [] = []"
| "deletes (DeleteKey k # es) = k # deletes es"
| "deletes (e # es) = deletes es"

section \<open>Replies that the dispatcher retries\<close>

text \<open>
  A reply of the gateway with one of the statuses that \<open>Retryable\<close> names, or no reply at
  all (a transport-level error).
\<close>

fun transient :: "reply \<Rightarrow> bool" where
  "transient NoResponse = True"
| "transient (Response status content) = (status = 429 \<or> status = 500 \<or> status = 503)"

section \<open>A concrete process\<close>

text \<open>
  The registry as \<^verbatim>\<open>main\<close> leaves it, with the one application it creates a client
  for, one device record in the store, a notification for that device, and an outside world
  in which requests are well formed and the datastore works.
\<close>

definition registered :: string where
  "registered = ''cam.reaction.ReactionCam''"

definition example_client :: client where
  "example_client = \<lparr>Certificate = ''cert'', Timeout = 3\<rparr>"

definition example_key :: key where
  "example_key = (7, ''a1b2'')"

definition example_device :: Device where
  "example_device =
     \<lparr>ApiVersion = 1, DeviceApp = ''cam.reaction.ReactionCam'', Created = 0, DeviceId = ''id'',
      DeviceInfo = ''phone'', DeviceEnvironment = ''production'', Failures = 0, LastSuccess = 0,
      Platform = ''ios'', Token = ''a1b2'', TotalFailures = 0, TotalSuccesses = 0, Updated = 0\<rparr>"

definition example_state :: state where
  "example_state =
     \<lparr>clients = [''cam.reaction.ReactionCam'' \<mapsto> example_client], timestamp = 0,
      store = [example_key \<mapsto> example_device], trace = []\<rparr>"

definition example_payload :: "string \<Rightarrow> Payload" where
  "example_payload app =
     \<lparr>AccountID = 7, App = app, Data = ''{}'', DeviceToken = ''a1b2'',
      Environment = ''production''\<rparr>"

definition answer :: "reply \<Rightarrow> turn" where
  "answer g =
     \<lparr>t_request = 10, request_ok = True, gateway = g, t_response = 20, fault = NoFault,
      t_update = 30, delete_fails = False\<rparr>"

section \<open>Basic facts\<close>

lemma steps_simps:
  "steps [] = []"
  "steps (e # es) = (if is_step e then e # steps es else steps es)"
  "steps (xs @ ys) = steps xs @ steps ys"
  by (simp_all add: steps_def)

lemma sends_append: "sends (xs @ ys) = sends xs @ sends ys"
  by (induction xs rule: sends.induct) simp_all

lemma reads_append: "reads (xs @ ys) = reads xs + reads ys"
  by (induction xs rule: reads.induct) simp_all

lemma deletes_append: "deletes (xs @ ys) = deletes xs @ deletes ys"
  by (induction xs rule: deletes.induct) simp_all

lemmas proj_append = steps_simps sends_append reads_append deletes_append

lemma emit_fields:
  "trace (emit e s) = trace s @ [e]"
  "clients (emit e s) = clients s"
  "store (emit e s) = store s"
  "timestamp (emit e s) = timestamp s"
  by (simp_all add: emit_def)

lemmas example_defs = registered_def example_client_def example_key_def example_device_def
  example_state_def example_payload_def answer_def

lemmas run_defs = example_defs Push_def updateDeviceStats_def updateDevice_def Delete_def
  permanent_error_def Permanent_def Retryable_def emit_def MaxRetries_def backoff_def Let_def
  AppleHost_def AppleHostDev_def Unix_def Hour_def push_def steps_simps

subsection \<open>What each call leaves in the state\<close>

lemma Push_frame:
  "clients (snd (Push app tok env data r s)) = clients s"
  "store (snd (Push app tok env data r s)) = store s"
  by (simp_all add: Push_def Let_def emit_fields split: option.splits reply.splits)

lemma Push_trace:
  "steps (trace (snd (Push app tok env data r s))) = steps (trace s) @ [Lookup app]"
  "deletes (trace (snd (Push app tok env data r s))) = deletes (trace s)"
  by (simp_all add: Push_def Let_def emit_fields proj_append split: option.splits reply.splits)

lemma Push_sends:
  "clients s app = None \<Longrightarrow> sends (trace (snd (Push app tok env data r s))) = sends (trace s)"
  by (simp add: Push_def Let_def emit_fields proj_append)

lemma Push_sends_count:
  "length (sends (trace (snd (Push app tok env data r s)))) =
     length (sends (trace s)) + (if clients s app \<noteq> None \<and> request_ok r then 1 else 0)"
  by (simp add: Push_def Let_def emit_fields proj_append split: option.splits reply.splits)

lemma Push_error_sent:
  assumes "fst (Push app tok env data r s) = Some (PushErr pe)"
  shows "clients s app \<noteq> None \<and> request_ok r"
  using assms
  by (auto simp: Push_def Let_def split: option.splits reply.splits if_splits)

lemma Push_ok:
  assumes "clients s app = Some c" and "request_ok r" and "gateway r = Response 200 content"
  shows "fst (Push app tok env data r s) = None"
  using assms by (simp add: Push_def Let_def)

lemma Push_transient:
  assumes "clients s app = Some c" and "request_ok r" and "transient (gateway r)"
  shows "\<exists>e. fst (Push app tok env data r s) = Some e \<and> permanent_error (Some e) = None"
  using assms
  by (cases "gateway r")
    (auto simp: Push_def Let_def permanent_error_def Permanent_def split: option.splits)

lemma updateDeviceStats_frame:
  "clients (snd (updateDeviceStats k b r s)) = clients s"
  "timestamp (snd (updateDeviceStats k b r s)) = timestamp s"
  by (simp_all add: updateDeviceStats_def Let_def emit_fields split: option.splits)

lemma updateDeviceStats_trace:
  "trace (snd (updateDeviceStats k b r s)) = trace s @ [UpdateStats k b]"
  by (simp add: updateDeviceStats_def Let_def emit_fields split: option.splits)

lemma Delete_trace:
  "trace (snd (Delete k r s)) = trace s @ [DeleteKey k]"
  by (simp add: Delete_def Let_def emit_fields)

lemma sint_succ:
  fixes x :: "64 word"
  assumes "sint x < 2 ^ 63 - 1"
  shows "sint (x + 1) = sint x + 1"
proof -
  have "- (2 ^ 63) \<le> sint x"
    using sint_ge [of x] by simp
  with assms show ?thesis
    by (simp add: sint_word_ariths signed_take_bit_int_eq_self)
qed

subsection \<open>One turn of the loop, by the outcome of the attempt\<close>

lemma push_loop_success:
  assumes "Push (App p) (DeviceToken p) (Environment p) (Data p) (w n) s = (None, s1)"
    and "updateDeviceStats k True (w n) s1 = (ue, s2)"
  shows "push_loop p k w n s =
    (case ue of Some e \<Rightarrow> emit (LogFailedToUpdate (AccountID p) e) s2 | None \<Rightarrow> s2)"
  by (subst push_loop.simps) (simp add: assms permanent_error_def)

lemma push_loop_permanent:
  assumes "Push (App p) (DeviceToken p) (Environment p) (Data p) (w n) s = (Some (PushErr pe), s1)"
    and "Permanent pe"
    and "Delete k (w n) (emit (LogPermanentFailure (AccountID p) pe) s1) = (de, s2)"
  shows "push_loop p k w n s =
    emit (LogPayload (AccountID p) (Data p))
      (case de of Some e \<Rightarrow> emit (LogFailedToDelete (AccountID p) e) s2 | None \<Rightarrow> s2)"
  by (subst push_loop.simps) (simp add: assms permanent_error_def)

lemma push_loop_failure:
  assumes "Push (App p) (DeviceToken p) (Environment p) (Data p) (w n) s = (Some e, s1)"
    and "permanent_error (Some e) = None"
    and "updateDeviceStats k False (w n) s1 = (ue, s2)"
  shows "push_loop p k w n s =
    (let s3 = (case ue of Some e' \<Rightarrow> emit (LogFailedToUpdate (AccountID p) e') s2 | None \<Rightarrow> s2);
         s4 = emit (LogFailedPush (AccountID p) n e) s3
     in if n \<ge> MaxRetries
        then emit (LogPayload (AccountID p) (Data p)) (emit (LogExceededRetries (AccountID p)) s4)
        else push_loop p k w (n + 1) (emit (Sleep (backoff n)) s4))"
  by (subst push_loop.simps) (simp add: assms Let_def)

text \<open>
  A turn whose attempt fails with an error that the guard does not take for permanent: the
  attempt and a failure update are on the trace, and the loop either gives up (at
  \<open>MaxRetries\<close>) or sleeps and goes on.
\<close>

lemma push_loop_failed_turn:
  assumes "fst (Push (App p) (DeviceToken p) (Environment p) (Data p) (w n) s) = Some e"
    and "permanent_error (Some e) = None"
  obtains s' where
    "clients s' = clients s"
    "steps (trace s') = steps (trace s) @ [Lookup (App p), UpdateStats k False]"
    "deletes (trace s') = deletes (trace s)"
    "sends (trace s') =
       sends (trace (snd (Push (App p) (DeviceToken p) (Environment p) (Data p) (w n) s)))"
    "push_loop p k w n s =
       (if MaxRetries \<le> n
        then emit (LogPayload (AccountID p) (Data p)) (emit (LogExceededRetries (AccountID p)) s')
        else push_loop p k w (n + 1) (emit (Sleep (backoff n)) s'))"
proof -
  let ?P = "Push (App p) (DeviceToken p) (Environment p) (Data p) (w n) s"
  obtain s1 where P: "?P = (Some e, s1)"
    using assms(1) by (cases ?P) simp
  obtain ue s2 where U: "updateDeviceStats k False (w n) s1 = (ue, s2)"
    by (cases "updateDeviceStats k False (w n) s1")
  define s3 where
    "s3 = (case ue of Some e' \<Rightarrow> emit (LogFailedToUpdate (AccountID p) e') s2 | None \<Rightarrow> s2)"
  define s4 where "s4 = emit (LogFailedPush (AccountID p) n e) s3"
  have s1: "s1 = snd ?P"
    by (simp add: P)
  have t2: "trace s2 = trace s1 @ [UpdateStats k False]"
    using updateDeviceStats_trace [of k False "w n" s1] by (simp add: U)
  have c2: "clients s2 = clients s1"
    using updateDeviceStats_frame(1) [of k False "w n" s1] by (simp add: U)
  have "\<exists>es. trace s4 = trace s1 @ UpdateStats k False # es \<and> steps es = [] \<and>
      deletes es = [] \<and> sends es = []"
    by (cases ue) (simp_all add: s4_def s3_def emit_fields t2 steps_simps)
  then obtain es where es: "trace s4 = trace s1 @ UpdateStats k False # es" "steps es = []"
      "deletes es = []" "sends es = []"
    by blast
  have "clients s4 = clients s"
    by (cases ue) (simp_all add: s4_def s3_def emit_fields c2 s1 Push_frame)
  moreover have "steps (trace s4) = steps (trace s) @ [Lookup (App p), UpdateStats k False]"
    by (simp add: es proj_append s1 Push_trace)
  moreover have "deletes (trace s4) = deletes (trace s)"
    by (simp add: es proj_append s1 Push_trace)
  moreover have "sends (trace s4) = sends (trace (snd ?P))"
    by (simp add: es proj_append s1)
  moreover have "push_loop p k w n s =
       (if MaxRetries \<le> n
        then emit (LogPayload (AccountID p) (Data p)) (emit (LogExceededRetries (AccountID p)) s4)
        else push_loop p k w (n + 1) (emit (Sleep (backoff n)) s4))"
    using push_loop_failure [where w = w and n = n, OF P assms(2) U]
    by (simp add: Let_def s4_def s3_def)
  ultimately show thesis
    by (rule that)
qed

text \<open>
  While the application has no client in the registry, every turn fails at the lookup: no
  request goes out and nothing is deleted, however many turns the loop takes.
\<close>

lemma push_loop_unregistered:
  assumes "clients s (App p) = None"
  shows "sends (trace (push_loop p k w n s)) = sends (trace s) \<and>
         deletes (trace (push_loop p k w n s)) = deletes (trace s)"
  using assms
proof (induction "nat (MaxRetries - n)" arbitrary: n s)
  case 0
  let ?P = "Push (App p) (DeviceToken p) (Environment p) (Data p) (w n) s"
  have P: "fst ?P = Some (InvalidApp (App p))"
    using "0.prems" by (simp add: Push_def Let_def)
  have np: "permanent_error (Some (InvalidApp (App p))) = None"
    by (simp add: permanent_error_def)
  from "0.hyps" have le: "MaxRetries \<le> n"
    by simp
  obtain s' where s': "deletes (trace s') = deletes (trace s)"
    "sends (trace s') = sends (trace (snd ?P))"
    "push_loop p k w n s =
       (if MaxRetries \<le> n
        then emit (LogPayload (AccountID p) (Data p)) (emit (LogExceededRetries (AccountID p)) s')
        else push_loop p k w (n + 1) (emit (Sleep (backoff n)) s'))"
    using push_loop_failed_turn [where w = w and n = n and k = k, OF P np] by metis
  show ?case
    by (simp add: s' le emit_fields proj_append Push_sends [OF "0.prems"])
next
  case (Suc x)
  let ?P = "Push (App p) (DeviceToken p) (Environment p) (Data p) (w n) s"
  have P: "fst ?P = Some (InvalidApp (App p))"
    using Suc.prems by (simp add: Push_def Let_def)
  have np: "permanent_error (Some (InvalidApp (App p))) = None"
    by (simp add: permanent_error_def)
  from Suc.hyps(2) have lt: "\<not> MaxRetries \<le> n" and x: "x = nat (MaxRetries - (n + 1))"
    by simp_all
  obtain s' where s': "clients s' = clients s" "deletes (trace s') = deletes (trace s)"
    "sends (trace s') = sends (trace (snd ?P))"
    "push_loop p k w n s =
       (if MaxRetries \<le> n
        then emit (LogPayload (AccountID p) (Data p)) (emit (LogExceededRetries (AccountID p)) s')
        else push_loop p k w (n + 1) (emit (Sleep (backoff n)) s'))"
    using push_loop_failed_turn [where w = w and n = n and k = k, OF P np] by metis
  have "clients (emit (Sleep (backoff n)) s') (App p) = None"
    by (simp add: emit_fields s' Suc.prems)
  from Suc.hyps(1) [OF x this] show ?case
    by (simp add: s' lt emit_fields proj_append Push_sends [OF Suc.prems])
qed

section \<open>The claims\<close>

subsection \<open>C1: a status that is neither permanent nor retryable\<close>

text \<open>
  C1 says that after an outcome whose status is none of 200, 400, 410, 429, 500 and 503 the
  dispatcher records one failure and drops the notification without a further attempt. The
  branch of \<^verbatim>\<open>push\<close> that logs \<^verbatim>\<open>DROPPING NOTIFICATION\<close> for such an error stands
  under the guard \<^verbatim>\<open>ok && err.Permanent()\<close> and is never reached, so the error takes the
  path of a failed attempt. With the gateway answering 403 to every request, \<^verbatim>\<open>push\<close>
  makes three attempts (three requests to the gateway), records a failure after each and
  sleeps 1 and 2 seconds in between.
\<close>

theorem push_403_is_retried:
  "\<not> Permanent \<lparr>Body = ''forbidden'', StatusCode = 403\<rparr> \<and>
   \<not> Retryable \<lparr>Body = ''forbidden'', StatusCode = 403\<rparr> \<and>
   steps (trace (push (example_payload registered)
     (\<lambda>n. answer (Response 403 (Some ''forbidden''))) example_state)) =
     [Lookup registered, UpdateStats example_key False, Sleep 1,
      Lookup registered, UpdateStats example_key False, Sleep 2,
      Lookup registered, UpdateStats example_key False] \<and>
   length (sends (trace (push (example_payload registered)
     (\<lambda>n. answer (Response 403 (Some ''forbidden''))) example_state))) = 3"
  by (simp add: run_defs push_loop.simps)

subsection \<open>C2: an application that is not recognised\<close>

text \<open>
  C2, as the code has it: \<^verbatim>\<open>push\<close> drops a notification at once, with the
  unrecognized-app log line and nothing else (no lookup, no attempt, no update, no delete),
  when its application identifier is empty. For an identifier that has no client in the
  registry, no request is sent to the gateway and nothing is deleted.
\<close>

theorem push_unrecognized_app:
  "(App p = [] \<longrightarrow> push p w s = s\<lparr>trace := trace s @ [LogUnrecognizedApp []]\<rparr>) \<and>
   (clients s (App p) = None \<longrightarrow>
      sends (trace (push p w s)) = sends (trace s) \<and>
      deletes (trace (push p w s)) = deletes (trace s))"
  by (simp add: push_def Let_def emit_def push_loop_unregistered proj_append)

text \<open>The two cases of C2 at the concrete process: the empty and an unregistered identifier.\<close>

theorem push_unrecognized_app_witness:
  "push (example_payload []) (\<lambda>n. answer (Response 200 (Some ''ok''))) example_state =
     example_state\<lparr>trace := [LogUnrecognizedApp []]\<rparr> \<and>
   clients example_state ''other.app'' = None \<and>
   sends (trace (push (example_payload ''other.app'') (\<lambda>n. answer (Response 200 (Some ''ok'')))
     example_state)) = [] \<and>
   deletes (trace (push (example_payload ''other.app'') (\<lambda>n. answer (Response 200 (Some ''ok'')))
     example_state)) = []"
  using push_unrecognized_app [of "example_payload []" "\<lambda>n. answer (Response 200 (Some ''ok''))"
      example_state]
    push_unrecognized_app [of "example_payload ''other.app''"
      "\<lambda>n. answer (Response 200 (Some ''ok''))" example_state]
  by (simp add: example_defs)

text \<open>
  C2 as stated fails for an identifier that is not empty and not registered: \<^verbatim>\<open>Push\<close>
  looks it up on each of three turns, and each failed lookup is recorded on the device
  record, whose failure counter ends at 3.
\<close>

theorem unregistered_app_is_retried:
  "clients example_state ''other.app'' = None \<and>
   steps (trace (push (example_payload ''other.app'') (\<lambda>n. answer (Response 200 (Some ''ok'')))
     example_state)) =
     [Lookup ''other.app'', UpdateStats example_key False, Sleep 1,
      Lookup ''other.app'', UpdateStats example_key False, Sleep 2,
      Lookup ''other.app'', UpdateStats example_key False] \<and>
   map_option Failures (store example_state example_key) = Some 0 \<and>
   map_option Failures (store (push (example_payload ''other.app'')
     (\<lambda>n. answer (Response 200 (Some ''ok''))) example_state) example_key) = Some 3"
  by (simp add: run_defs push_loop.simps)

subsection \<open>C3: the timestamp of the last delivery\<close>

text \<open>
  C3, as the code has it: \<^verbatim>\<open>Push\<close> sets the process-wide timestamp to the current time
  whenever the gateway sends a response, whatever its status; an attempt that gets no
  response (no client for the application, a request that cannot be built, a transport
  error) leaves the timestamp as it was.
\<close>

theorem Push_timestamp:
  "timestamp (snd (Push app tok env data r s)) =
     (if clients s app \<noteq> None \<and> request_ok r \<and> gateway r \<noteq> NoResponse
      then t_response r else timestamp s)"
  by (simp add: Push_def Let_def emit_fields split: option.splits reply.splits)

text \<open>C3 at the concrete process: a response with status 429, and no response.\<close>

theorem Push_timestamp_witness:
  "timestamp (snd (Push registered ''a1b2'' ''production'' ''{}''
      (answer (Response 429 (Some ''slow''))) example_state)) = 20 \<and>
   timestamp (snd (Push registered ''a1b2'' ''production'' ''{}''
      (answer NoResponse) example_state)) = 0"
  using Push_timestamp [of registered "''a1b2''" "''production''" "''{}''"
      "answer (Response 429 (Some ''slow''))" example_state]
    Push_timestamp [of registered "''a1b2''" "''production''" "''{}''"
      "answer NoResponse" example_state]
  by (simp add: example_defs)

text \<open>
  C3 as stated fails: a response with status 503 is returned as a \<^verbatim>\<open>PushError\<close>, and
  the timestamp has moved from 0 to the time of the response.
\<close>

theorem timestamp_updated_on_503:
  "fst (Push registered ''a1b2'' ''production'' ''{}''
      (answer (Response 503 (Some ''busy''))) example_state) =
     Some (PushErr \<lparr>Body = ''busy'', StatusCode = 503\<rparr>) \<and>
   timestamp example_state = 0 \<and>
   timestamp (snd (Push registered ''a1b2'' ''production'' ''{}''
      (answer (Response 503 (Some ''busy''))) example_state)) = 20"
  by (simp add: run_defs)

subsection \<open>C4: a permanent failure\<close>

text \<open>
  C4: a delivery outcome with status 400 or 410 (a \<^verbatim>\<open>PushError\<close> that \<^verbatim>\<open>Push\<close>
  returns with that status) is \<open>Permanent\<close>, and the turn of the loop that gets it is the
  last one: after the attempt comes one delete of the device key and nothing else, no
  bookkeeping update, no sleep and no further attempt. The turn is any turn \<open>n\<close> of the
  loop, from any state.
\<close>

theorem push_permanent_deletes:
  assumes "fst (Push (App p) (DeviceToken p) (Environment p) (Data p) (w n) s) = Some (PushErr pe)"
    and "StatusCode pe = 400 \<or> StatusCode pe = 410"
  shows "Permanent pe \<and>
         steps (trace (push_loop p k w n s)) = steps (trace s) @ [Lookup (App p), DeleteKey k] \<and>
         length (sends (trace (push_loop p k w n s))) = length (sends (trace s)) + 1"
proof -
  let ?P = "Push (App p) (DeviceToken p) (Environment p) (Data p) (w n) s"
  have perm: "Permanent pe"
    using assms(2) by (simp add: Permanent_def)
  obtain s1 where P: "?P = (Some (PushErr pe), s1)"
    using assms(1) by (cases ?P) simp
  obtain de s2 where D: "Delete k (w n) (emit (LogPermanentFailure (AccountID p) pe) s1) = (de, s2)"
    by (cases "Delete k (w n) (emit (LogPermanentFailure (AccountID p) pe) s1)")
  have s1: "s1 = snd ?P"
    by (simp add: P)
  have t2: "trace s2 = trace s1 @ [LogPermanentFailure (AccountID p) pe, DeleteKey k]"
    using Delete_trace [of k "w n" "emit (LogPermanentFailure (AccountID p) pe) s1"]
    by (simp add: D emit_fields)
  have sent: "length (sends (trace s1)) = length (sends (trace s)) + 1"
    using Push_error_sent [OF assms(1)] by (simp add: s1 Push_sends_count)
  have "steps (trace (push_loop p k w n s)) = steps (trace s) @ [Lookup (App p), DeleteKey k] \<and>
        length (sends (trace (push_loop p k w n s))) = length (sends (trace s)) + 1"
    unfolding push_loop_permanent [where w = w and n = n, OF P perm D]
    by (cases de) (simp_all add: emit_fields t2 proj_append sent, simp_all add: s1 Push_trace)
  with perm show ?thesis
    by simp
qed

text \<open>C4 at the concrete process: the gateway answers 410 to the first attempt.\<close>

theorem push_permanent_deletes_witness:
  "fst (Push registered ''a1b2'' ''production'' ''{}''
      (answer (Response 410 (Some ''gone''))) example_state) =
     Some (PushErr \<lparr>Body = ''gone'', StatusCode = 410\<rparr>) \<and>
   Permanent \<lparr>Body = ''gone'', StatusCode = 410\<rparr> \<and>
   steps (trace (push (example_payload registered)
      (\<lambda>n. answer (Response 410 (Some ''gone''))) example_state)) =
     [Lookup registered, DeleteKey example_key] \<and>
   length (sends (trace (push (example_payload registered)
      (\<lambda>n. answer (Response 410 (Some ''gone''))) example_state))) = 1"
  using push_permanent_deletes [where s = example_state and p = "example_payload registered"
      and w = "\<lambda>n. answer (Response 410 (Some ''gone''))" and n = 1
      and pe = "\<lparr>Body = ''gone'', StatusCode = 410\<rparr>" and k = example_key]
  by (simp add: run_defs)

subsection \<open>C5: retryable failures\<close>

text \<open>
  C5, as the code has it: the statuses 429, 500 and 503 are \<open>Retryable\<close>, and when each of
  the first three attempts ends in such a status or in a transport-level error, the
  dispatcher makes exactly three attempts (three requests to the gateway), records a failure
  after each of them, sleeps 1 second after the first and 2 seconds after the second, and
  drops the notification right after the third without sleeping again: the trace ends with
  the log lines of the drop.
\<close>

theorem push_transient_three_attempts:
  assumes "App p \<noteq> []" and "clients s (App p) = Some c"
    and "\<forall>n \<in> {1, 2, 3}. request_ok (w n) \<and> transient (gateway (w n))"
  shows "Retryable \<lparr>Body = b, StatusCode = 429\<rparr> \<and>
         Retryable \<lparr>Body = b, StatusCode = 500\<rparr> \<and>
         Retryable \<lparr>Body = b, StatusCode = 503\<rparr> \<and>
         steps (trace (push p w s)) =
           steps (trace s) @
           [Lookup (App p), UpdateStats (AccountID p, DeviceToken p) False, Sleep 1,
            Lookup (App p), UpdateStats (AccountID p, DeviceToken p) False, Sleep 2,
            Lookup (App p), UpdateStats (AccountID p, DeviceToken p) False] \<and>
         length (sends (trace (push p w s))) = length (sends (trace s)) + 3 \<and>
         (\<exists>es. trace (push p w s) =
            es @ [LogExceededRetries (AccountID p), LogPayload (AccountID p) (Data p)])"
proof -
  define k where "k = (AccountID p, DeviceToken p)"
  let ?Push = "Push (App p) (DeviceToken p) (Environment p) (Data p)"
  have start: "push p w s = push_loop p k w 1 s"
    using assms(1) by (simp add: push_def k_def)
  have turn: "\<exists>e. fst (?Push (w n) s') = Some e \<and> permanent_error (Some e) = None"
    if "n \<in> {1, 2, 3}" "clients s' = clients s" for n s'
    using Push_transient [of s' "App p" c "w n"] that assms(2,3) by auto
  have sent: "length (sends (trace (snd (?Push (w n) s')))) = Suc (length (sends (trace s')))"
    if "n \<in> {1, 2, 3}" "clients s' = clients s" for n s'
    using that assms(2,3) by (auto simp: Push_sends_count)
  obtain e1 where e1: "fst (?Push (w 1) s) = Some e1" "permanent_error (Some e1) = None"
    using turn [of 1 s] by auto
  obtain s1 where s1: "clients s1 = clients s"
    "steps (trace s1) = steps (trace s) @ [Lookup (App p), UpdateStats k False]"
    "sends (trace s1) = sends (trace (snd (?Push (w 1) s)))"
    "push_loop p k w 1 s = push_loop p k w 2 (emit (Sleep (backoff 1)) s1)"
    using push_loop_failed_turn [where w = w and n = 1 and k = k, OF e1]
    by (simp add: MaxRetries_def) metis
  define t1 where "t1 = emit (Sleep (backoff 1)) s1"
  have c1: "clients t1 = clients s"
    by (simp add: t1_def emit_fields s1)
  have n1: "length (sends (trace t1)) = length (sends (trace s)) + 1"
    using sent [of 1 s] by (simp add: t1_def emit_fields proj_append s1)
  obtain e2 where e2: "fst (?Push (w 2) t1) = Some e2" "permanent_error (Some e2) = None"
    using turn [of 2 t1] c1 by auto
  obtain s2 where s2: "clients s2 = clients t1"
    "steps (trace s2) = steps (trace t1) @ [Lookup (App p), UpdateStats k False]"
    "sends (trace s2) = sends (trace (snd (?Push (w 2) t1)))"
    "push_loop p k w 2 t1 = push_loop p k w 3 (emit (Sleep (backoff 2)) s2)"
    using push_loop_failed_turn [where w = w and n = 2 and k = k, OF e2]
    by (simp add: MaxRetries_def) metis
  define t2 where "t2 = emit (Sleep (backoff 2)) s2"
  have c2: "clients t2 = clients s"
    by (simp add: t2_def emit_fields s2 c1)
  have n2: "length (sends (trace t2)) = length (sends (trace s)) + 2"
    using sent [of 2 t1] c1 n1 by (simp add: t2_def emit_fields proj_append s2)
  obtain e3 where e3: "fst (?Push (w 3) t2) = Some e3" "permanent_error (Some e3) = None"
    using turn [of 3 t2] c2 by auto
  obtain s3 where s3:
    "steps (trace s3) = steps (trace t2) @ [Lookup (App p), UpdateStats k False]"
    "sends (trace s3) = sends (trace (snd (?Push (w 3) t2)))"
    "push_loop p k w 3 t2 =
       emit (LogPayload (AccountID p) (Data p)) (emit (LogExceededRetries (AccountID p)) s3)"
    using push_loop_failed_turn [where w = w and n = 3 and k = k, OF e3]
    by (simp add: MaxRetries_def) metis
  have n3: "length (sends (trace s3)) = length (sends (trace s)) + 3"
    using sent [of 3 t2] c2 n2 by (simp add: s3)
  have final: "push p w s =
      emit (LogPayload (AccountID p) (Data p)) (emit (LogExceededRetries (AccountID p)) s3)"
    by (simp add: start s1(4) s2(4) [unfolded t1_def] s3(3) [unfolded t2_def] t1_def t2_def)
  have "steps (trace (push p w s)) =
      steps (trace s) @
      [Lookup (App p), UpdateStats k False, Sleep 1,
       Lookup (App p), UpdateStats k False, Sleep 2,
       Lookup (App p), UpdateStats k False]"
    by (simp add: final emit_fields proj_append s3 t2_def s2 t1_def s1 backoff_def)
  moreover have "length (sends (trace (push p w s))) = length (sends (trace s)) + 3"
    by (simp add: final emit_fields proj_append n3)
  moreover have "trace (push p w s) =
      trace s3 @ [LogExceededRetries (AccountID p), LogPayload (AccountID p) (Data p)]"
    by (simp add: final emit_fields)
  ultimately show ?thesis
    by (simp add: Retryable_def k_def)
qed

text \<open>
  C5 at the concrete process: status 500 on the first and third attempt, a transport error
  on the second.
\<close>

theorem push_transient_three_attempts_witness:
  "steps (trace (push (example_payload registered)
      (\<lambda>n. answer (if n = 2 then NoResponse else Response 500 (Some ''down''))) example_state)) =
     [Lookup registered, UpdateStats example_key False, Sleep 1,
      Lookup registered, UpdateStats example_key False, Sleep 2,
      Lookup registered, UpdateStats example_key False] \<and>
   length (sends (trace (push (example_payload registered)
      (\<lambda>n. answer (if n = 2 then NoResponse else Response 500 (Some ''down''))) example_state))) = 3"
  using push_transient_three_attempts [where s = example_state and p = "example_payload registered"
      and c = example_client
      and w = "\<lambda>n. answer (if n = 2 then NoResponse else Response 500 (Some ''down''))"]
  by (simp add: example_defs steps_simps)

text \<open>
  C5 as stated fails: with status 503 on all three attempts the dispatcher sleeps twice, 1
  and 2 seconds. Nothing sleeps 4 seconds, and no sleep follows the third failed attempt.
\<close>

theorem no_sleep_after_third_attempt:
  "steps (trace (push (example_payload registered)
      (\<lambda>n. answer (Response 503 (Some ''busy''))) example_state)) =
     [Lookup registered, UpdateStats example_key False, Sleep 1,
      Lookup registered, UpdateStats example_key False, Sleep 2,
      Lookup registered, UpdateStats example_key False]"
  by (simp add: run_defs push_loop.simps)

subsection \<open>C6: a successful delivery\<close>

text \<open>
  C6: the turn of the loop whose attempt gets status 200 is the last one: after the attempt
  comes one bookkeeping update with \<open>success = True\<close> and nothing else, no delete, no sleep
  and no further attempt. The turn is any turn \<open>n\<close> of the loop, from any state.
\<close>

theorem push_success_once:
  assumes "clients s (App p) = Some c" and "request_ok (w n)"
    and "gateway (w n) = Response 200 content"
  shows "steps (trace (push_loop p k w n s)) =
           steps (trace s) @ [Lookup (App p), UpdateStats k True] \<and>
         length (sends (trace (push_loop p k w n s))) = length (sends (trace s)) + 1"
proof -
  let ?P = "Push (App p) (DeviceToken p) (Environment p) (Data p) (w n) s"
  obtain s1 where P: "?P = (None, s1)"
    using Push_ok [OF assms, of "DeviceToken p" "Environment p" "Data p"] by (cases ?P) simp
  obtain ue s2 where U: "updateDeviceStats k True (w n) s1 = (ue, s2)"
    by (cases "updateDeviceStats k True (w n) s1")
  have s1: "s1 = snd ?P"
    by (simp add: P)
  have t2: "trace s2 = trace s1 @ [UpdateStats k True]"
    using updateDeviceStats_trace [of k True "w n" s1] by (simp add: U)
  have sent: "length (sends (trace s1)) = length (sends (trace s)) + 1"
    using assms(1,2) by (simp add: s1 Push_sends_count)
  show ?thesis
    unfolding push_loop_success [where w = w and n = n, OF P U]
    by (cases ue) (simp_all add: emit_fields t2 proj_append sent, simp_all add: s1 Push_trace)
qed

text \<open>C6 at the concrete process: the gateway answers 200 to the first attempt.\<close>

theorem push_success_once_witness:
  "steps (trace (push (example_payload registered)
      (\<lambda>n. answer (Response 200 (Some ''ok''))) example_state)) =
     [Lookup registered, UpdateStats example_key True] \<and>
   length (sends (trace (push (example_payload registered)
      (\<lambda>n. answer (Response 200 (Some ''ok''))) example_state))) = 1"
  using push_success_once [where s = example_state and p = "example_payload registered"
      and c = example_client and w = "\<lambda>n. answer (Response 200 (Some ''ok''))" and n = 1
      and content = "Some ''ok''" and k = example_key]
  by (simp add: example_defs push_def Let_def steps_simps)

subsection \<open>C7: the counters of a device record\<close>

text \<open>
  C7, as the code has it: a bookkeeping update leaves a record under the key, and when it
  commits, the consecutive-failure counter is zero after a success and, if it was below the
  largest \<^verbatim>\<open>int\<close> (\<open>2 ^ 63 - 1\<close>), one more after a failure. A lifetime counter that is
  below the largest \<^verbatim>\<open>int\<close> does not decrease across the update, committed or not.
\<close>

theorem updateDeviceStats_counters:
  assumes "store s k = Some d"
  shows "\<exists>d'. store (snd (updateDeviceStats k success r s)) k = Some d' \<and>
      (fst (updateDeviceStats k success r s) = None \<and> success \<longrightarrow> Failures d' = 0) \<and>
      (fst (updateDeviceStats k success r s) = None \<and> \<not> success \<and>
         sint (Failures d) < 2 ^ 63 - 1 \<longrightarrow>
         sint (Failures d') = sint (Failures d) + 1) \<and>
      (sint (TotalSuccesses d) < 2 ^ 63 - 1 \<longrightarrow>
         sint (TotalSuccesses d) \<le> sint (TotalSuccesses d')) \<and>
      (sint (TotalFailures d) < 2 ^ 63 - 1 \<longrightarrow>
         sint (TotalFailures d) \<le> sint (TotalFailures d'))"
  using assms
  by (simp add: updateDeviceStats_def updateDevice_def Let_def emit_fields sint_succ)

text \<open>
  C7 at the concrete process: a failure recorded on the example device, then a success.
\<close>

theorem updateDeviceStats_counters_witness:
  "map_option (\<lambda>d. (sint (Failures d), sint (TotalFailures d), sint (TotalSuccesses d)))
     (store (snd (updateDeviceStats example_key False (answer NoResponse) example_state))
        example_key) = Some (1, 1, 0) \<and>
   map_option (\<lambda>d. (sint (Failures d), sint (TotalFailures d), sint (TotalSuccesses d)))
     (store (snd (updateDeviceStats example_key True (answer NoResponse)
        (snd (updateDeviceStats example_key False (answer NoResponse) example_state))))
        example_key) = Some (0, 1, 1)"
  using updateDeviceStats_counters [of example_state example_key example_device False
      "answer NoResponse"]
    updateDeviceStats_counters [of
      "snd (updateDeviceStats example_key False (answer NoResponse) example_state)" example_key
      "updateDevice False 30 example_device" True "answer NoResponse"]
  by (simp add: run_defs)

text \<open>
  C7 as stated fails at the largest \<^verbatim>\<open>int\<close>: recording a failure on a record whose
  lifetime failure counter is \<open>2 ^ 63 - 1\<close> wraps the counter around to \<open>- 2 ^ 63\<close>.
\<close>

theorem counter_wraps_at_max:
  "sint (TotalFailures (example_device\<lparr>TotalFailures := 9223372036854775807\<rparr>)) =
     9223372036854775807 \<and>
   map_option (\<lambda>d. sint (TotalFailures d))
     (store (snd (updateDeviceStats example_key False (answer NoResponse)
        (example_state
           \<lparr>store := [example_key \<mapsto> example_device\<lparr>TotalFailures := 9223372036854775807\<rparr>]\<rparr>)))
      example_key) = Some (- 9223372036854775808)"
  by (simp add: run_defs)

subsection \<open>C8: the registry\<close>

text \<open>
  C8: \<^verbatim>\<open>Create\<close> for an application that already has a client panics and returns the
  map as it was, and \<^verbatim>\<open>Push\<close> for an application that has no client returns the
  invalid-app error as a value, having done nothing but the lookup.
\<close>

theorem create_panics_lookup_errors:
  "(m app = Some c \<longrightarrow>
      Create load m app = (Inl (Panic ''tried to overwrite existing client''), m)) \<and>
   (clients s other = None \<longrightarrow>
      Push other tok env data r s = (Some (InvalidApp other), emit (Lookup other) s))"
  by (simp add: Create_def Push_def Let_def)

text \<open>C8 at the concrete process: the registered application, and another one.\<close>

theorem create_panics_lookup_errors_witness:
  "clients example_state registered = Some example_client \<and>
   Create (\<lambda>pem key. Some ''cert'') (clients example_state) registered =
     (Inl (Panic ''tried to overwrite existing client''), clients example_state) \<and>
   clients example_state ''other.app'' = None \<and>
   Push ''other.app'' ''a1b2'' ''production'' ''{}'' (answer NoResponse) example_state =
     (Some (InvalidApp ''other.app''), emit (Lookup ''other.app'') example_state)"
  using create_panics_lookup_errors [where m = "clients example_state" and app = registered
      and c = example_client and load = "\<lambda>pem key. Some ''cert''" and s = example_state
      and other = "''other.app''" and tok = "''a1b2''" and env = "''production''"
      and data = "''{}''" and r = "answer NoResponse"]
  by (simp add: example_defs)

subsection \<open>C9: reading the response body\<close>

text \<open>
  C9, as the code has it: on a response from the gateway, \<^verbatim>\<open>Push\<close> reads the body once
  when the status is not 200, and does not read it when the status is 200.
\<close>

theorem Push_reads_body:
  assumes "clients s app = Some c" and "request_ok r" and "gateway r = Response status content"
  shows "reads (trace (snd (Push app tok env data r s))) =
           reads (trace s) + (if status = 200 then 0 else 1)"
  using assms
  by (simp add: Push_def Let_def emit_fields proj_append split: option.splits)

text \<open>C9 at the concrete process: a response with status 410, and one with status 200.\<close>

theorem Push_reads_body_witness:
  "reads (trace (snd (Push registered ''a1b2'' ''production'' ''{}''
      (answer (Response 410 (Some ''gone''))) example_state))) = 1 \<and>
   reads (trace (snd (Push registered ''a1b2'' ''production'' ''{}''
      (answer (Response 200 (Some ''ok''))) example_state))) = 0"
  using Push_reads_body [of example_state registered example_client
      "answer (Response 410 (Some ''gone''))" 410 "Some ''gone''" "''a1b2''" "''production''"
      "''{}''"]
    Push_reads_body [of example_state registered example_client
      "answer (Response 200 (Some ''ok''))" 200 "Some ''ok''" "''a1b2''" "''production''"
      "''{}''"]
  by (simp add: example_defs)

text \<open>
  C9 as stated fails: on status 200 \<^verbatim>\<open>Push\<close> returns \<^verbatim>\<open>nil\<close> after the lookup, the
  request and the deferred close of the body; the body is never read.
\<close>

theorem body_not_read_on_200:
  "Push registered ''a1b2'' ''production'' ''{}'' (answer (Response 200 (Some ''ok'')))
     example_state =
   (None,
    example_state
      \<lparr>timestamp := 20,
       trace :=
        [Lookup registered,
         Send example_client
           \<lparr>url = ''https://api.push.apple.com/3/device/a1b2'', apns_expiration = 604800,
            apns_topic = registered, content_type = ''application/json'', body = ''{}''\<rparr>,
         CloseBody]\<rparr>)"
  by (simp add: run_defs)

subsection \<open>C10: the classifier\<close>

text \<open>
  C10: no \<^verbatim>\<open>PushError\<close> is both \<open>Permanent\<close> and \<open>Retryable\<close>, and neither holds of
  status 200, so success, permanent, retryable and the rest are four disjoint classes of
  status codes that cover them all.
\<close>

theorem classifier_exclusive:
  "\<not> (Permanent pe \<and> Retryable pe) \<and>
   \<not> (StatusCode pe = 200 \<and> Permanent pe) \<and>
   \<not> (StatusCode pe = 200 \<and> Retryable pe)"
  by (auto simp: Permanent_def Retryable_def)

text \<open>C10 at two errors: 410 is permanent only, 503 is retryable only.\<close>

theorem classifier_exclusive_witness:
  "Permanent \<lparr>Body = ''gone'', StatusCode = 410\<rparr> \<and>
   \<not> Retryable \<lparr>Body = ''gone'', StatusCode = 410\<rparr> \<and>
   Retryable \<lparr>Body = ''busy'', StatusCode = 503\<rparr> \<and>
   \<not> Permanent \<lparr>Body = ''busy'', StatusCode = 503\<rparr>"
  using classifier_exclusive [of "\<lparr>Body = ''gone'', StatusCode = 410\<rparr>"]
    classifier_exclusive [of "\<lparr>Body = ''busy'', StatusCode = 503\<rparr>"]
  by (simp add: Permanent_def Retryable_def)

end
